theory Spec2Isabelle
  imports Complex_Main
begin

section \<open>Floating-point values with a missing-value marker\<close>

text \<open>
  The Python sources compute with IEEE doubles, and pandas marks an absent cell with NaN.
  A double is modelled as \<open>real option\<close>: \<open>Some r\<close> is the number \<open>r\<close> (rounding is
  idealised away), \<open>None\<close> is NaN. Arithmetic propagates NaN and every comparison with NaN
  is false, as in Python. Infinities are not modelled.
\<close>

type_synonym flt = "real option"

fun fadd :: "flt \<Rightarrow> flt \<Rightarrow> flt" where
  "fadd (Some x) (Some y) = Some (x + y)"
| "fadd _ _ = None"

fun fsub :: "flt \<Rightarrow> flt \<Rightarrow> flt" where
  "fsub (Some x) (Some y) = Some (x - y)"
| "fsub _ _ = None"

fun fmul :: "flt \<Rightarrow> flt \<Rightarrow> flt" where
  "fmul (Some x) (Some y) = Some (x * y)"
| "fmul _ _ = None"

text \<open>Every divisor in the modelled code is guarded to be non-zero
  (\<open>max(..., 1)\<close>, the constant 30, \<open>peak_equity > 0\<close>).\<close>

fun fdiv :: "flt \<Rightarrow> flt \<Rightarrow> flt" where
  "fdiv (Some x) (Some y) = Some (x / y)"
| "fdiv _ _ = None"

fun fle :: "flt \<Rightarrow> flt \<Rightarrow> bool" where
  "fle (Some x) (Some y) = (x \<le> y)"
| "fle _ _ = False"

fun flt_lt :: "flt \<Rightarrow> flt \<Rightarrow> bool" where
  "flt_lt (Some x) (Some y) = (x < y)"
| "flt_lt _ _ = False"

definition fge :: "flt \<Rightarrow> flt \<Rightarrow> bool" where
  "fge a b = fle b a"

definition fgt :: "flt \<Rightarrow> flt \<Rightarrow> bool" where
  "fgt a b = flt_lt b a"

definition isnan :: "flt \<Rightarrow> bool" where
  "isnan a = (a = None)"

text \<open>Python's \<open>min(a, b)\<close> returns \<open>a\<close> unless \<open>b < a\<close>.\<close>

definition py_min :: "flt \<Rightarrow> flt \<Rightarrow> flt" where
  "py_min a b = (if flt_lt b a then b else a)"

definition of_py_int :: "int \<Rightarrow> flt" where
  "of_py_int i = Some (of_int i)"

datatype py_error = ValueError | IndexError

text \<open>\<open>int(x)\<close> on a float truncates towards zero and raises ValueError on NaN.\<close>

definition trunc :: "real \<Rightarrow> int" where
  "trunc x = (if 0 \<le> x then \<lfloor>x\<rfloor> else \<lceil>x\<rceil>)"

definition py_int :: "flt \<Rightarrow> py_error + int" where
  "py_int a = (case a of None \<Rightarrow> Inl ValueError | Some x \<Rightarrow> Inr (trunc x))"

text \<open>\<open>n or 1\<close> on an integer: 1 when \<open>n\<close> is zero, else \<open>n\<close>.\<close>

definition or_1 :: "int \<Rightarrow> int" where
  "or_1 n = (if n = 0 then 1 else n)"

section \<open>Backtester (backtester.py)\<close>

subsection \<open>Data\<close>

record BacktestConfig =
  initial_cash :: real
  spread_bps :: real
  position_limit :: int
  fee_bps :: real
  friction_bps :: real
  fill_proximity_pct :: real
  volume_scale :: real

definition default_config :: BacktestConfig where
  "default_config = \<lparr> initial_cash = 100000, spread_bps = 200, position_limit = 10,
     fee_bps = 125, friction_bps = 50, fill_proximity_pct = 2 / 100, volume_scale = 1 \<rparr>"

text \<open>
  A pandas row (\<open>Series\<close>) maps the frame's column names to cells; \<open>row.get(k, d)\<close> returns
  the cell when the column exists (also when the cell is NaN) and \<open>d\<close> only when the frame
  has no such column. A frame has its column names and, per row, the date and the cells.
\<close>

type_synonym series = "string \<Rightarrow> flt option"

definition row_get :: "series \<Rightarrow> string \<Rightarrow> flt \<Rightarrow> flt" where
  "row_get row k d = (case row k of None \<Rightarrow> d | Some v \<Rightarrow> v)"

record frame =
  columns :: "string list"
  recs :: "(int \<times> (string \<Rightarrow> flt)) list"

definition series_of :: "string list \<Rightarrow> (string \<Rightarrow> flt) \<Rightarrow> series" where
  "series_of cols cells = (\<lambda>k. if k \<in> set cols then Some (cells k) else None)"

text \<open>\<open>ts_df.iloc[i]\<close> for every \<open>i\<close>, in order.\<close>

definition iloc_all :: "frame \<Rightarrow> series list" where
  "iloc_all df = map (\<lambda>r. series_of (columns df) (snd r)) (recs df)"

text \<open>\<open>ts_df.get(k, d)\<close>: the column \<open>k\<close> when present, else the scalar \<open>d\<close> broadcast.\<close>

definition frame_get :: "frame \<Rightarrow> string \<Rightarrow> flt \<Rightarrow> (string \<Rightarrow> flt) \<Rightarrow> flt" where
  "frame_get df k d cells = (if k \<in> set (columns df) then cells k else d)"

definition set_column :: "frame \<Rightarrow> string \<Rightarrow> ((string \<Rightarrow> flt) \<Rightarrow> flt) \<Rightarrow> frame" where
  "set_column df k f =
     \<lparr> columns = (if k \<in> set (columns df) then columns df else columns df @ [k]),
       recs = map (\<lambda>r. (fst r, (snd r)(k := f (snd r)))) (recs df) \<rparr>"

text \<open>
  \<open>Backtester.ingest\<close>: a missing \<open>best_ask\<close> column is filled from the \<open>fill_price\<close>
  column (NaN when that is missing too), a missing \<open>volume\<close> column from \<open>fill_volume\<close>
  (1.0 when missing); then the rows are sorted by date. The sort is the stable one, which
  is what pandas returns when no two rows share a date.
\<close>

definition ingest :: "frame \<Rightarrow> frame" where
  "ingest ts_df =
    (let df1 = (if ''best_ask'' \<notin> set (columns ts_df)
                then set_column ts_df ''best_ask'' (frame_get ts_df ''fill_price'' None)
                else ts_df);
         df2 = (if ''volume'' \<notin> set (columns df1)
                then set_column df1 ''volume'' (frame_get df1 ''fill_volume'' (Some 1))
                else df1)
     in df2 \<lparr> recs := sort_key fst (recs df2) \<rparr>)"

subsection \<open>Synthetic order book and fill test\<close>

definition synthetic_order_book :: "BacktestConfig \<Rightarrow> series \<Rightarrow> flt \<times> flt" where
  "synthetic_order_book cfg row =
    (let ask = row_get row ''best_ask'' (row_get row ''fill_price'' None)
     in if isnan ask then (None, None)
        else (let spread = fmul ask (Some (spread_bps cfg / 10000));
                  bid = fsub ask spread
              in (bid, ask)))"

definition simulate_fill :: "BacktestConfig \<Rightarrow> string \<Rightarrow> flt \<Rightarrow> series \<Rightarrow> bool" where
  "simulate_fill cfg side price row =
    (let fill_price = row_get row ''fill_price'' None;
         volume = fmul (row_get row ''fill_volume'' (Some 1)) (Some (volume_scale cfg))
     in if isnan fill_price \<or> fle volume (Some 0) then False
        else (let proximity = fill_proximity_pct cfg
              in if side = ''buy'' then fge price (fmul fill_price (Some (1 - proximity)))
                 else if side = ''sell'' then fle price (fmul fill_price (Some (1 + proximity)))
                 else False))"

subsection \<open>The loop of \<open>Backtester.run\<close>\<close>

record bt_state =
  cash :: flt
  position :: int
  cost_basis :: flt
  equity_curve :: "flt list"
  hold_curve :: "flt list"
  trade_pnls :: "flt list"
  peak_equity :: flt
  max_dd :: flt
  inventory_days_stale :: flt
  total_inventory_risk_cost :: flt

definition fee_mult :: "BacktestConfig \<Rightarrow> real" where
  "fee_mult cfg = 1 - (fee_bps cfg + friction_bps cfg) / 10000"

text \<open>\<open>first_fill_price\<close>: the first row's trade price, 0.0 when it is NaN.\<close>

definition first_fill_price :: "series list \<Rightarrow> real" where
  "first_fill_price ts =
     (case row_get (hd ts) ''fill_price'' None of None \<Rightarrow> 0 | Some p \<Rightarrow> p)"

definition hold_cash_after_buy :: "BacktestConfig \<Rightarrow> real \<Rightarrow> real" where
  "hold_cash_after_buy cfg ffp = (if ffp > 0 then initial_cash cfg - ffp else initial_cash cfg)"

definition init_state :: "BacktestConfig \<Rightarrow> bt_state" where
  "init_state cfg =
     \<lparr> cash = Some (initial_cash cfg), position = 0, cost_basis = Some 0,
       equity_curve = [Some (initial_cash cfg)], hold_curve = [Some (initial_cash cfg)],
       trade_pnls = [], peak_equity = Some (initial_cash cfg), max_dd = Some 0,
       inventory_days_stale = Some 0, total_inventory_risk_cost = Some 0 \<rparr>"

text \<open>\<open>mtm = fill_price if not np.isnan(fill_price) else 0.0\<close>\<close>

definition mtm_of :: "flt \<Rightarrow> flt" where
  "mtm_of fill_price = (if \<not> isnan fill_price then fill_price else Some 0)"

text \<open>Lines 134-138: the order book is missing; only the two curves grow.\<close>

definition skip_period :: "BacktestConfig \<Rightarrow> real \<Rightarrow> bt_state \<Rightarrow> series \<Rightarrow> bt_state" where
  "skip_period cfg ffp st row =
    (let fill_price = row_get row ''fill_price'' None;
         mtm = mtm_of fill_price
     in st \<lparr> equity_curve := equity_curve st @ [fadd (cash st) (fmul (of_py_int (position st)) mtm)],
             hold_curve := hold_curve st @
               [fadd (Some (hold_cash_after_buy cfg ffp))
                     (fmul (Some (if ffp \<noteq> 0 then 1 else 0)) mtm)] \<rparr>)"

text \<open>Lines 141-149: the buy leg.\<close>

definition buy_leg :: "BacktestConfig \<Rightarrow> bt_state \<Rightarrow> series \<Rightarrow> flt \<Rightarrow> py_error + bt_state" where
  "buy_leg cfg st row bid =
    (let fill_price = row_get row ''fill_price'' None;
         fill_vol = row_get row ''fill_volume'' (Some 1)
     in if position st < position_limit cfg \<and> simulate_fill cfg ''buy'' bid row
        then (let cost = fmul fill_price (Some (fee_mult cfg))
              in if fge (cash st) (fmul cost fill_vol)
                 then (case py_int fill_vol of
                         Inl e \<Rightarrow> Inl e
                       | Inr n \<Rightarrow>
                          (let size = min (or_1 n) (position_limit cfg - position st)
                           in Inr (st \<lparr> cash := fsub (cash st) (fmul cost (of_py_int size)),
                                        position := position st + size,
                                        cost_basis := fadd (cost_basis st) (fmul cost (of_py_int size)),
                                        trade_pnls := trade_pnls st @ [Some 0],
                                        inventory_days_stale := Some 0 \<rparr>)))
                 else Inr st)
        else Inr st)"

text \<open>Lines 152-160: the sell leg.\<close>

definition sell_leg :: "BacktestConfig \<Rightarrow> bt_state \<Rightarrow> series \<Rightarrow> flt \<Rightarrow> py_error + bt_state" where
  "sell_leg cfg st row ask =
    (let fill_price = row_get row ''fill_price'' None;
         fill_vol = row_get row ''fill_volume'' (Some 1)
     in if position st > 0 \<and> simulate_fill cfg ''sell'' ask row
        then (let proceeds = fmul (fmul fill_price (Some (fee_mult cfg))) fill_vol
              in case py_int fill_vol of
                   Inl e \<Rightarrow> Inl e
                 | Inr n \<Rightarrow>
                    (let size = min (or_1 n) (position st);
                         avg = fdiv (cost_basis st) (of_py_int (max (position st) 1));
                         pnl = fmul (fsub fill_price avg) (of_py_int size)
                     in Inr (st \<lparr> cash := fadd (cash st)
                                       (fdiv (fmul proceeds (of_py_int size)) (of_py_int (max size 1))),
                                  position := position st - size,
                                  cost_basis := fsub (cost_basis st) (fmul avg (of_py_int size)),
                                  trade_pnls := trade_pnls st @ [pnl],
                                  inventory_days_stale := Some 0 \<rparr>)))
        else Inr st)"

text \<open>Lines 162-179: inventory-risk accrual, the equity mark, drawdown and the hold curve.\<close>

definition accrue :: "bt_state \<Rightarrow> series \<Rightarrow> bt_state" where
  "accrue st row =
    (let fill_price = row_get row ''fill_price'' None;
         days = fadd (inventory_days_stale st) (Some 1);
         st1 = st \<lparr> inventory_days_stale := days \<rparr>
     in if position st > 0
        then (let stale_penalty =
                    fmul (fmul (fmul (of_py_int (position st)) fill_price) (Some (1 / 1000)))
                         (py_min (fdiv days (Some 30)) (Some 1))
              in st1 \<lparr> total_inventory_risk_cost := fadd (total_inventory_risk_cost st) stale_penalty,
                       cash := fsub (cash st) stale_penalty \<rparr>)
        else st1)"

definition mark :: "BacktestConfig \<Rightarrow> real \<Rightarrow> bt_state \<Rightarrow> series \<Rightarrow> bt_state" where
  "mark cfg ffp st row =
    (let fill_price = row_get row ''fill_price'' None;
         mtm = mtm_of fill_price;
         equity = fadd (cash st) (fmul (of_py_int (position st)) mtm);
         peak = (if fgt equity (peak_equity st) then equity else peak_equity st);
         dd = (if fgt peak (Some 0) then fdiv (fsub peak equity) peak else Some 0)
     in st \<lparr> equity_curve := equity_curve st @ [equity],
             peak_equity := peak,
             max_dd := (if fgt dd (max_dd st) then dd else max_dd st),
             hold_curve := hold_curve st @
               [fadd (Some (hold_cash_after_buy cfg ffp))
                     (fmul (Some (if ffp > 0 then 1 else 0)) mtm)] \<rparr>)"

text \<open>One iteration of the \<open>for\<close> loop (lines 128-179).\<close>

definition period :: "BacktestConfig \<Rightarrow> real \<Rightarrow> bt_state \<Rightarrow> series \<Rightarrow> py_error + bt_state" where
  "period cfg ffp st row =
    (case synthetic_order_book cfg row of (bid, ask) \<Rightarrow>
       if isnan bid \<or> isnan ask then Inr (skip_period cfg ffp st row)
       else (case buy_leg cfg st row bid of
               Inl e \<Rightarrow> Inl e
             | Inr st1 \<Rightarrow>
                (case sell_leg cfg st1 row ask of
                   Inl e \<Rightarrow> Inl e
                 | Inr st2 \<Rightarrow> Inr (mark cfg ffp (accrue st2 row) row))))"

fun run_loop :: "BacktestConfig \<Rightarrow> real \<Rightarrow> bt_state \<Rightarrow> series list \<Rightarrow> py_error + bt_state" where
  "run_loop cfg ffp st [] = Inr st"
| "run_loop cfg ffp st (row # ts) =
     (case period cfg ffp st row of
        Inl e \<Rightarrow> Inl e
      | Inr st' \<Rightarrow> run_loop cfg ffp st' ts)"

text \<open>
  \<open>Backtester.run\<close> up to the end of the loop: \<open>None\<close> is the early return of an empty
  \<open>BacktestMetrics()\<close>; otherwise the final loop state, from which the metrics record is
  read off (curves, trade list, drawdown, inventory-risk cost). The Sharpe ratio, which no
  property below refers to, is not modelled.
\<close>

definition run :: "BacktestConfig \<Rightarrow> frame \<Rightarrow> py_error + bt_state option" where
  "run cfg df =
    (let ts = iloc_all df
     in if ts = [] then Inr None
        else (case run_loop cfg (first_fill_price ts) (init_state cfg) ts of
                Inl e \<Rightarrow> Inl e
              | Inr st \<Rightarrow> Inr (Some st)))"

section \<open>Array helpers (numpy)\<close>

text \<open>Arrays are lists; a \<open>(P, T)\<close> or \<open>(P, T, K)\<close> array is read from its flat,
  row-major buffer by index.\<close>

definition at2 :: "nat \<Rightarrow> real list \<Rightarrow> nat \<Rightarrow> nat \<Rightarrow> real" where
  "at2 T xs p t = xs ! (p * T + t)"

definition at3 :: "nat \<Rightarrow> nat \<Rightarrow> real list \<Rightarrow> nat \<Rightarrow> nat \<Rightarrow> nat \<Rightarrow> real" where
  "at3 T K xs p t k = xs ! ((p * T + t) * K + k)"

definition np_mean :: "real list \<Rightarrow> real" where
  "np_mean xs = sum_list xs / real (length xs)"

definition np_std :: "real list \<Rightarrow> real" where
  "np_std xs = sqrt (np_mean (map (\<lambda>x. (x - np_mean xs)\<^sup>2) xs))"

text \<open>\<open>np.mean\<close> of a boolean array: the fraction of true entries.\<close>

definition mean_bool :: "bool list \<Rightarrow> real" where
  "mean_bool bs = np_mean (map (\<lambda>b. if b then 1 else 0) bs)"

text \<open>\<open>np.percentile(a, q)\<close>, default (linear) method, for a non-empty array and
  \<open>0 \<le> q \<le> 100\<close>: interpolate between the two order statistics around the virtual index
  \<open>q / 100 * (n - 1)\<close>.\<close>

definition np_percentile :: "real list \<Rightarrow> real \<Rightarrow> real" where
  "np_percentile a q =
    (let s = sort a;
         n = length s;
         v = q / 100 * real (n - 1);
         lo = nat \<lfloor>v\<rfloor>;
         hi = min (lo + 1) (n - 1);
         g = v - real lo
     in s ! lo + (s ! hi - s ! lo) * g)"

text \<open>\<open>np.argmin\<close>: the first index of the minimum; \<open>np.min\<close>. Both raise on an empty
  axis, which the caller rules out before using them.\<close>

fun np_argmin :: "real list \<Rightarrow> nat" where
  "np_argmin [] = 0"
| "np_argmin [x] = 0"
| "np_argmin (x # y # ys) = (let j = np_argmin (y # ys) in if (y # ys) ! j < x then Suc j else 0)"

fun np_min :: "real list \<Rightarrow> real" where
  "np_min [] = 0"
| "np_min (x # xs) = fold min xs x"

section \<open>Portfolio Monte Carlo (simulator.py)\<close>

subsection \<open>Configuration and the random generator\<close>

record sku_param =
  mu :: real
  sigma :: real
  liquidity_score :: real

text \<open>The two dicts are association lists in insertion order (keys distinct, as in a dict).\<close>

record PortfolioSimulatorConfig =
  initial_capital :: real
  num_days :: int
  num_paths :: int
  sku_params :: "(string \<times> sku_param) list"
  s0_per_sku :: "(string \<times> real) list option"
  market_beta :: real
  volume_threshold :: real
  staleness_ruin_days :: int
  staleness_haircut :: real
  ruin_pct :: real
  seed :: "int option"

text \<open>
  numpy's generator is outside the repository. It is taken as a parameter: \<open>seeded s\<close> is
  the sequence of standard-normal variates a generator seeded with \<open>s\<close> produces, and
  \<open>entropy\<close> is the sequence produced when no seed is given (fresh operating-system
  entropy, different from call to call). A generator carries its sequence and the number
  of variates already handed out; \<open>standard_normal\<close> hands out the next \<open>n\<close>.
\<close>

record rng =
  variates :: "nat \<Rightarrow> real"
  consumed :: nat

definition default_rng :: "(int \<Rightarrow> nat \<Rightarrow> real) \<Rightarrow> (nat \<Rightarrow> real) \<Rightarrow> int option \<Rightarrow> rng" where
  "default_rng seeded entropy sd =
     \<lparr> variates = (case sd of None \<Rightarrow> entropy | Some s \<Rightarrow> seeded s), consumed = 0 \<rparr>"

definition standard_normal :: "rng \<Rightarrow> nat \<Rightarrow> real list \<times> rng" where
  "standard_normal g n =
     (map (variates g) [consumed g ..< consumed g + n], g \<lparr> consumed := consumed g + n \<rparr>)"

text \<open>The three draws of the engine, in program order: \<open>Z_market\<close> of shape \<open>(P, T)\<close>,
  \<open>Z_idio\<close> of shape \<open>(P, T, K)\<close>, \<open>Z_vol\<close> of shape \<open>(P, T, K)\<close>.\<close>

definition draw_shocks :: "rng \<Rightarrow> nat \<Rightarrow> nat \<Rightarrow> nat \<Rightarrow> real list \<times> real list \<times> real list" where
  "draw_shocks g P T K =
    (case standard_normal g (P * T) of (Z_market, g1) \<Rightarrow>
     case standard_normal g1 (P * T * K) of (Z_idio, g2) \<Rightarrow>
     case standard_normal g2 (P * T * K) of (Z_vol, g3) \<Rightarrow>
       (Z_market, Z_idio, Z_vol))"

subsection \<open>Parameters\<close>

definition default_sku :: "(string \<times> sku_param) list" where
  "default_sku = [(''Default'', \<lparr> mu = 5 / 100, sigma = 35 / 100, liquidity_score = 1 / 2 \<rparr>)]"

definition effective_params :: "PortfolioSimulatorConfig \<Rightarrow> (string \<times> sku_param) list" where
  "effective_params cfg = (if sku_params cfg = [] then default_sku else sku_params cfg)"

definition mu_arr :: "(string \<times> sku_param) list \<Rightarrow> real list" where
  "mu_arr ps = map (\<lambda>s. mu (snd s)) ps"

text \<open>\<open>sigma_arr = np.maximum(sigma_arr, 1e-6)\<close>\<close>

definition sigma_arr :: "(string \<times> sku_param) list \<Rightarrow> real list" where
  "sigma_arr ps = map (\<lambda>s. max (sigma (snd s)) (1 / 1000000)) ps"

definition liq_arr :: "(string \<times> sku_param) list \<Rightarrow> real list" where
  "liq_arr ps = map (\<lambda>s. liquidity_score (snd s)) ps"

text \<open>\<open>s0\<close>: the configured initial price, 100 when the dict is absent, empty or has no
  entry for the label.\<close>

definition s0_arr :: "PortfolioSimulatorConfig \<Rightarrow> string list \<Rightarrow> real list" where
  "s0_arr cfg labels =
    (case s0_per_sku cfg of
       None \<Rightarrow> replicate (length labels) 100
     | Some d \<Rightarrow>
         if d = [] then replicate (length labels) 100
         else map (\<lambda>s. case map_of d s of None \<Rightarrow> 100 | Some v \<Rightarrow> v) labels)"

definition dt :: real where
  "dt = 1 / 252"

subsection \<open>Paths, volume and staleness\<close>

text \<open>\<open>Z = beta * Z_market[:, :, newaxis] + sqrt(1 - beta**2) * Z_idio\<close> with
  \<open>beta = clip(market_beta, 0, 1)\<close>.\<close>

definition beta_of :: "PortfolioSimulatorConfig \<Rightarrow> real" where
  "beta_of cfg = min (max (market_beta cfg) 0) 1"

definition Z_at :: "real \<Rightarrow> nat \<Rightarrow> nat \<Rightarrow> real list \<Rightarrow> real list \<Rightarrow> nat \<Rightarrow> nat \<Rightarrow> nat \<Rightarrow> real" where
  "Z_at b T K Z_market Z_idio p t k =
     b * at2 T Z_market p t + sqrt (1 - b\<^sup>2) * at3 T K Z_idio p t k"

definition log_return :: "real \<Rightarrow> real \<Rightarrow> real \<Rightarrow> real" where
  "log_return m s z = (m - (1 / 2) * s\<^sup>2) * dt + s * sqrt dt * z"

text \<open>\<open>S[p, -1, k]\<close> for \<open>T \<ge> 1\<close>: \<open>s0 * exp\<close> of the last entry of the cumulative sum of
  the log returns along the time axis.\<close>

definition end_price :: "real \<Rightarrow> real \<Rightarrow> real \<Rightarrow> real list \<Rightarrow> real" where
  "end_price s0 m s zs = s0 * exp (sum_list (map (log_return m s) zs))"

text \<open>\<open>volume[p, :, k]\<close> and \<open>below[p, :, k]\<close>.\<close>

definition volume_series :: "real \<Rightarrow> real list \<Rightarrow> real list" where
  "volume_series liq zvs = map (\<lambda>z. liq * exp ((3 / 10) * z)) zvs"

definition below :: "real \<Rightarrow> real list \<Rightarrow> bool list" where
  "below threshold vols = map (\<lambda>v. v < threshold) vols"

text \<open>Lines 106-109 along the time axis of one (path, asset): flip, cast to float,
  \<open>argmin\<close>, \<open>min == 1.0\<close>, \<open>where\<close>.\<close>

definition days_stale_at_end :: "bool list \<Rightarrow> int" where
  "days_stale_at_end bl =
    (let flipped_below = rev (map (\<lambda>b. if b then (1::real) else 0) bl);
         first_above_idx = np_argmin flipped_below;
         all_below = (np_min flipped_below = 1)
     in if all_below then int (length bl) else int first_above_idx)"

definition is_stale :: "PortfolioSimulatorConfig \<Rightarrow> real list \<Rightarrow> bool" where
  "is_stale cfg vols = (days_stale_at_end (below (volume_threshold cfg) vols) \<ge> staleness_ruin_days cfg)"

definition haircut :: "PortfolioSimulatorConfig \<Rightarrow> real list \<Rightarrow> real" where
  "haircut cfg vols = (if is_stale cfg vols then staleness_haircut cfg else 1)"

subsection \<open>The engine\<close>

record sim_result =
  final_values :: "real list"
  mean :: real
  std :: real
  p5 :: real
  p50 :: real
  p95 :: real
  probability_of_ruin :: real
  probability_of_ruin_staleness :: real
  staleness_days_threshold :: int
  num_skus :: nat
  sku_labels :: "string list"

text \<open>The per-(path, asset) slices the engine works on.\<close>

definition Z_series :: "PortfolioSimulatorConfig \<Rightarrow> nat \<Rightarrow> nat \<Rightarrow> real list \<Rightarrow> real list \<Rightarrow> nat \<Rightarrow> nat \<Rightarrow> real list" where
  "Z_series cfg T K Z_market Z_idio p k =
     map (\<lambda>t. Z_at (beta_of cfg) T K Z_market Z_idio p t k) [0..<T]"

definition vol_series :: "nat \<Rightarrow> real list \<Rightarrow> real list \<Rightarrow> nat \<Rightarrow> nat \<Rightarrow> real list" where
  "vol_series T liqs Z_vol p k =
     volume_series (liqs ! k) (map (\<lambda>t. at3 T (length liqs) Z_vol p t k) [0..<T])"

text \<open>\<open>value_per_sku[p, k] = shares[k] * end_prices[p, k] * haircut[p, k]\<close>\<close>

definition value_per_sku ::
  "PortfolioSimulatorConfig \<Rightarrow> nat \<Rightarrow> real list \<times> real list \<times> real list \<Rightarrow> nat \<Rightarrow> nat \<Rightarrow> real" where
  "value_per_sku cfg T shocks p k =
    (case shocks of (Z_market, Z_idio, Z_vol) \<Rightarrow>
      (let ps = effective_params cfg;
           K = length ps;
           s0 = s0_arr cfg (map fst ps);
           initial_per_sku = initial_capital cfg / real K;
           shares = map (\<lambda>s. initial_per_sku / s) s0
       in shares ! k
          * end_price (s0 ! k) (mu_arr ps ! k) (sigma_arr ps ! k) (Z_series cfg T K Z_market Z_idio p k)
          * haircut cfg (vol_series T (liq_arr ps) Z_vol p k)))"

definition had_stale :: "PortfolioSimulatorConfig \<Rightarrow> nat \<Rightarrow> real list \<Rightarrow> nat \<Rightarrow> bool" where
  "had_stale cfg T Z_vol p =
     list_ex (\<lambda>k. is_stale cfg (vol_series T (liq_arr (effective_params cfg)) Z_vol p k))
       [0..<length (effective_params cfg)]"

text \<open>
  \<open>run_portfolio_monte_carlo\<close>. A negative \<open>num_paths\<close> or \<open>num_days\<close> makes
  \<open>standard_normal\<close> raise ValueError; \<open>num_days = 0\<close> makes \<open>np.argmin\<close> raise ValueError
  on the empty time axis; \<open>num_paths = 0\<close> makes \<open>np.percentile\<close> raise IndexError on the
  empty array of terminal values. Doubles are idealised as reals (an initial price of
  zero, which numpy turns into an infinite share count, is outside this idealisation).
\<close>

definition run_portfolio_monte_carlo ::
  "(int \<Rightarrow> nat \<Rightarrow> real) \<Rightarrow> (nat \<Rightarrow> real) \<Rightarrow> PortfolioSimulatorConfig \<Rightarrow> py_error + sim_result" where
  "run_portfolio_monte_carlo seeded entropy cfg =
    (if num_paths cfg < 0 \<or> num_days cfg < 0 then Inl ValueError
     else
      (let g = default_rng seeded entropy (seed cfg);
           P = nat (num_paths cfg);
           T = nat (num_days cfg);
           labels = map fst (effective_params cfg);
           K = length labels;
           shocks = draw_shocks g P T K
       in if T = 0 then Inl ValueError
          else if P = 0 then Inl IndexError
          else
           (let fv = map (\<lambda>p. sum_list (map (value_per_sku cfg T shocks p) [0..<K])) [0..<P];
                ruin_threshold = initial_capital cfg * ruin_pct cfg;
                ruin_paths = map (\<lambda>v. v < ruin_threshold) fv;
                stale_paths = map (had_stale cfg T (snd (snd shocks))) [0..<P]
            in Inr \<lparr> final_values = fv,
                     mean = np_mean fv,
                     std = np_std fv,
                     p5 = np_percentile fv 5,
                     p50 = np_percentile fv 50,
                     p95 = np_percentile fv 95,
                     probability_of_ruin = mean_bool ruin_paths,
                     probability_of_ruin_staleness =
                       mean_bool (map (\<lambda>(r, h). r \<and> h) (zip ruin_paths stale_paths)),
                     staleness_days_threshold = staleness_ruin_days cfg,
                     num_skus = K,
                     sku_labels = labels \<rparr>)))"

section \<open>Price cleaning (data_processor.py)\<close>

text \<open>
  \<open>clean_sold_prices\<close>. The input cells are doubles, \<open>None\<close> standing for a non-finite
  one; the result holds finite prices only.
\<close>

definition finite_at_least :: "real \<Rightarrow> flt list \<Rightarrow> real list" where
  "finite_at_least min_price prices =
     List.map_filter (\<lambda>x. case x of None \<Rightarrow> None
                                | Some r \<Rightarrow> if r \<ge> min_price then Some r else None) prices"

definition clean_sold_prices :: "flt list \<Rightarrow> real \<Rightarrow> real \<Rightarrow> real \<Rightarrow> real list" where
  "clean_sold_prices prices min_price iqr_mult percentile_floor =
    (let p = finite_at_least min_price prices
     in if length p = 0 then p
        else if length p \<le> 2 then p
        else
         (let q1 = np_percentile p 25;
              q3 = np_percentile p 75;
              iqr0 = q3 - q1;
              iqr = (if iqr0 \<le> 0 then (if np_std p = 0 then 1 / 1000000 else np_std p) else iqr0);
              low = max (max min_price (np_percentile p percentile_floor)) (q1 - iqr_mult * iqr);
              high = q3 + iqr_mult * iqr
          in filter (\<lambda>x. x \<ge> low \<and> x \<le> high) p))"

text \<open>The call with the defaults \<open>min_price = 5.0\<close>, \<open>iqr_mult = 1.5\<close>,
  \<open>percentile_floor = 1.0\<close>, as \<open>process_sku_sold\<close> makes it.\<close>

definition clean :: "flt list \<Rightarrow> real list" where
  "clean prices = clean_sold_prices prices 5 (3 / 2) 1"

section \<open>Invariants stated as predicates\<close>

text \<open>The position bound, and a period volume that is a non-negative number.\<close>

definition pos_ok :: "BacktestConfig \<Rightarrow> bt_state \<Rightarrow> bool" where
  "pos_ok cfg st = (0 \<le> position st \<and> position st \<le> position_limit cfg)"

definition vol_ok :: "series \<Rightarrow> bool" where
  "vol_ok row = (case row_get row ''fill_volume'' (Some 1) of None \<Rightarrow> False | Some v \<Rightarrow> 0 \<le> v)"


section \<open>Concrete inputs used by the examples\<close>

text \<open>Two periods: a trade at 100 with best ask 103, then a period with neither a trade
  price nor a best ask.\<close>

definition gap_frame :: frame where
  "gap_frame = \<lparr> columns = [''fill_price'', ''fill_volume'', ''best_ask''],
     recs = [(1, (\<lambda>k. None)(''fill_price'' := Some 100, ''fill_volume'' := Some 1,
                             ''best_ask'' := Some 103)),
             (2, (\<lambda>k. None)(''fill_volume'' := Some 0))] \<rparr>"

text \<open>One period with a trade at 100 and a \<open>best_ask\<close> column whose cell is NaN.\<close>

definition no_ask_frame :: frame where
  "no_ask_frame = \<lparr> columns = [''fill_price'', ''fill_volume'', ''best_ask''],
     recs = [(0, (\<lambda>k. None)(''fill_price'' := Some 100, ''fill_volume'' := Some 1))] \<rparr>"

text \<open>A row with trade price 100, volume 1 and best ask 100.\<close>

definition touch_row :: series where
  "touch_row = series_of [''fill_price'', ''fill_volume'', ''best_ask'']
     ((\<lambda>k. None)(''fill_price'' := Some 100, ''fill_volume'' := Some 1, ''best_ask'' := Some 100))"

definition scaled_config :: BacktestConfig where
  "scaled_config = default_config \<lparr> volume_scale := 3 \<rparr>"

definition long_two :: "BacktestConfig \<Rightarrow> bt_state" where
  "long_two cfg = (init_state cfg) \<lparr> cash := Some 99800, position := 2, cost_basis := Some 200 \<rparr>"

text \<open>A two-path, two-step, one-asset configuration with zero volatility and seed 42,
  and two generators: one that always returns 0, one that always returns 1.\<close>

definition zero_vol_config :: PortfolioSimulatorConfig where
  "zero_vol_config =
     \<lparr> initial_capital = 100000, num_days = 2, num_paths = 2,
       sku_params = [(''A'', \<lparr> mu = 5 / 100, sigma = 0, liquidity_score = 1 / 2 \<rparr>)],
       s0_per_sku = None, market_beta = 1 / 2, volume_threshold = 1 / 10,
       staleness_ruin_days = 2, staleness_haircut = 0, ruin_pct = 1 / 2, seed = Some 42 \<rparr>"

definition zeros :: "nat \<Rightarrow> real" where
  "zeros n = 0"

definition ones :: "nat \<Rightarrow> real" where
  "ones n = 1"

definition const_gen :: "int \<Rightarrow> nat \<Rightarrow> real" where
  "const_gen s n = 0"


lemmas example_defs =
  gap_frame_def no_ask_frame_def touch_row_def scaled_config_def long_two_def default_config_def

lemmas backtester_defs =
  ingest_def set_column_def frame_get_def iloc_all_def series_of_def row_get_def
  first_fill_price_def hold_cash_after_buy_def init_state_def fee_mult_def
  simulate_fill_def buy_leg_def sell_leg_def accrue_def mark_def skip_period_def mtm_of_def
  period_def run_def isnan_def fge_def fgt_def py_min_def of_py_int_def py_int_def trunc_def
  or_1_def

section \<open>Backtester: properties\<close>

subsection \<open>Auxiliary facts\<close>

lemma sort_key_map_fst:
  assumes "\<And>r. fst (h r) = fst r"
  shows "sort_key fst (map h xs) = map h (sort_key fst xs)"
proof (induction xs)
  case Nil show ?case by simp
next
  case (Cons x xs)
  have ins: "insort_key fst (h x) (map h ys) = map h (insort_key fst x ys)" for ys
    by (induction ys) (auto simp: assms)
  show ?case using Cons by (simp add: ins)
qed

lemma book_cases:
  "synthetic_order_book cfg row =
    (case row_get row ''best_ask'' (row_get row ''fill_price'' None) of
       None \<Rightarrow> (None, None)
     | Some a \<Rightarrow> (Some (a - a * (spread_bps cfg / 10000)), Some a))"
  by (simp add: synthetic_order_book_def isnan_def Let_def split: option.splits)

lemma or_1_trunc_nonneg:
  assumes "0 \<le> v"
  shows "or_1 (trunc v) = max \<lfloor>v\<rfloor> 1"
proof -
  define n where "n = \<lfloor>v\<rfloor>"
  have "0 \<le> n" using assms by (simp add: n_def)
  moreover have "trunc v = n" using assms by (simp add: trunc_def n_def)
  ultimately show ?thesis unfolding n_def[symmetric] by (simp add: or_1_def max_def)
qed

lemma or_1_trunc_ge1: "0 \<le> v \<Longrightarrow> 1 \<le> or_1 (trunc v)"
  by (simp only: or_1_trunc_nonneg)

subsection \<open>Reference price and synthetic book\<close>

text \<open>
  Claim C4, as the code has it. The backtester reads the \<open>best_ask\<close> cell of every period
  whenever the ingested sequence has a \<open>best_ask\<close> column, also when that cell is NaN; the
  trade price stands in only when the whole column is absent (\<open>ingest\<close> then copies the
  \<open>fill_price\<close> column). Where the reference is present, the synthetic ask is the reference
  and the synthetic bid is the reference minus reference times \<open>spread_bps / 10000\<close>;
  where it is NaN, both are NaN. The periods are taken in date order.
\<close>

theorem order_book_reference:
  "map (synthetic_order_book cfg) (iloc_all (ingest df)) =
   map (\<lambda>r. case (if ''best_ask'' \<in> set (columns df) then snd r ''best_ask''
                   else if ''fill_price'' \<in> set (columns df) then snd r ''fill_price''
                   else None) of
               None \<Rightarrow> (None, None)
             | Some ref \<Rightarrow> (Some (ref - ref * (spread_bps cfg / 10000)), Some ref))
       (sort_key fst (recs df))"
  by (simp add: book_cases iloc_all_def ingest_def Let_def set_column_def sort_key_map_fst
        series_of_def row_get_def frame_get_def comp_def)

text \<open>
  C4 as stated fails: in \<open>no_ask_frame\<close> the only period has no best ask and a trade price
  of 100, yet the synthetic book is (NaN, NaN) instead of ask 100, bid 98.
\<close>

theorem order_book_fallback_counterexample:
  "row_get (hd (iloc_all (ingest no_ask_frame))) ''best_ask'' None = None
   \<and> row_get (hd (iloc_all (ingest no_ask_frame))) ''fill_price'' None = Some 100
   \<and> synthetic_order_book default_config (hd (iloc_all (ingest no_ask_frame))) = (None, None)
   \<and> synthetic_order_book default_config (hd (iloc_all (ingest no_ask_frame))) \<noteq> (Some 98, Some 100)"
  by (simp add: example_defs backtester_defs book_cases Let_def)

subsection \<open>Periods without a reference price\<close>

text \<open>
  Claim C5, as the code has it. In a period whose reference price is missing the execution
  logic is skipped (cash, position, cost basis, trade list and staleness counter are
  untouched) and one equity point is still recorded: cash plus position times the
  period's own trade price when it has one, and times zero otherwise. So when the trade
  price is missing too, the point is the cash balance alone, whatever was traded before.
\<close>

theorem missing_reference_skips_execution:
  assumes "row_get row ''best_ask'' (row_get row ''fill_price'' None) = None"
  shows "\<exists>st'. period cfg ffp st row = Inr st'
           \<and> cash st' = cash st \<and> position st' = position st
           \<and> cost_basis st' = cost_basis st \<and> trade_pnls st' = trade_pnls st
           \<and> inventory_days_stale st' = inventory_days_stale st
           \<and> equity_curve st' = equity_curve st @
                [fadd (cash st) (fmul (of_py_int (position st))
                   (case row_get row ''fill_price'' None of None \<Rightarrow> Some 0 | Some p \<Rightarrow> Some p))]
           \<and> (row_get row ''fill_price'' None = None \<longrightarrow>
                 equity_curve st' = equity_curve st @ [cash st])"
proof -
  have "period cfg ffp st row = Inr (skip_period cfg ffp st row)"
    using assms by (simp add: period_def book_cases isnan_def)
  moreover have "fadd (cash st) (fmul (of_py_int (position st)) (Some 0)) = cash st"
    by (cases "cash st") (simp_all add: of_py_int_def)
  ultimately show ?thesis
    by (simp add: skip_period_def Let_def mtm_of_def isnan_def split: option.splits)
qed

theorem missing_reference_skips_execution_witness:
  "row_get (iloc_all (ingest gap_frame) ! 1) ''best_ask''
      (row_get (iloc_all (ingest gap_frame) ! 1) ''fill_price'' None) = None
   \<and> (\<exists>st'. period default_config 100 (long_two default_config) (iloc_all (ingest gap_frame) ! 1) = Inr st'
        \<and> position st' = 2 \<and> cash st' = Some 99800
        \<and> equity_curve st' = [Some 100000, Some 99800])"
proof -
  have h: "row_get (iloc_all (ingest gap_frame) ! 1) ''best_ask''
      (row_get (iloc_all (ingest gap_frame) ! 1) ''fill_price'' None) = None"
    by (simp add: example_defs backtester_defs Let_def)
  have f: "row_get (iloc_all (ingest gap_frame) ! 1) ''fill_price'' None = None"
    by (simp add: example_defs backtester_defs Let_def)
  show ?thesis
    using h f missing_reference_skips_execution [OF h, of default_config 100 "long_two default_config"]
    by (auto simp: long_two_def init_state_def default_config_def)
qed

text \<open>
  C5 as stated fails: replaying \<open>gap_frame\<close> with the default configuration buys one unit
  at the trade price 100 in the first period; in the second period, which has neither a
  best ask nor a trade price, the recorded equity point is the cash balance alone
  (position marked at zero), not cash plus one unit at the last known trade price 100.
\<close>

theorem last_known_price_counterexample:
  "map_sum id (map_option (\<lambda>st. (position st, cash st, last (equity_curve st))))
      (run default_config (ingest gap_frame))
     = Inr (Some (1, Some (7492631 / 75), Some (7492631 / 75)))
   \<and> Some (7492631 / 75) \<noteq> fadd (Some (7492631 / 75)) (fmul (of_py_int 1) (Some 100))"
  by (simp add: example_defs backtester_defs book_cases Let_def)

subsection \<open>Sell fills\<close>

text \<open>
  Claim C6, as the code has it. Whenever a sell fills (position above zero, the fill test
  passes, the period volume is a number), the fill size is the minimum of the current
  position and the period's own volume, not scaled by \<open>volume_scale\<close>, truncated to an
  integer and replaced by 1 when that is 0 (for a non-negative volume: rounded down and
  floored at 1); the realized P&L appended to the trade list is (trade price minus cost
  basis over position) times the fill size; the cost basis shrinks by cost basis over
  position times the fill size, and the position by the fill size.
\<close>

theorem sell_fill_accounting:
  assumes "position st > 0"
    and "simulate_fill cfg ''sell'' ask row"
    and "row_get row ''fill_price'' None = Some fp"
    and "row_get row ''fill_volume'' (Some 1) = Some fv"
    and "cost_basis st = Some cb"
  shows "\<exists>st'. sell_leg cfg st row ask = Inr st'
          \<and> position st' = position st - min (or_1 (trunc fv)) (position st)
          \<and> trade_pnls st' = trade_pnls st @
               [Some ((fp - cb / of_int (position st)) * of_int (min (or_1 (trunc fv)) (position st)))]
          \<and> cost_basis st' =
               Some (cb - cb / of_int (position st) * of_int (min (or_1 (trunc fv)) (position st)))
          \<and> (0 \<le> fv \<longrightarrow> or_1 (trunc fv) = max \<lfloor>fv\<rfloor> 1)"
  using assms
  by (simp add: sell_leg_def Let_def py_int_def of_py_int_def or_1_trunc_nonneg)

theorem sell_fill_accounting_witness:
  "position (long_two default_config) > 0
   \<and> simulate_fill default_config ''sell'' (Some 100) touch_row
   \<and> row_get touch_row ''fill_price'' None = Some 100
   \<and> row_get touch_row ''fill_volume'' (Some 1) = Some 1
   \<and> cost_basis (long_two default_config) = Some 200
   \<and> (\<exists>st'. sell_leg default_config (long_two default_config) touch_row (Some 100) = Inr st'
         \<and> position st' = 1 \<and> trade_pnls st' = [Some 0] \<and> cost_basis st' = Some 100)"
proof -
  have h1: "position (long_two default_config) > 0"
    by (simp add: long_two_def)
  have h2: "simulate_fill default_config ''sell'' (Some 100) touch_row"
    by (simp add: example_defs backtester_defs Let_def)
  have h3: "row_get touch_row ''fill_price'' None = Some 100"
    by (simp add: example_defs backtester_defs)
  have h4: "row_get touch_row ''fill_volume'' (Some 1) = Some 1"
    by (simp add: example_defs backtester_defs)
  have h5: "cost_basis (long_two default_config) = Some 200"
    by (simp add: long_two_def)
  show ?thesis
    using h1 h2 h3 h4 h5 sell_fill_accounting [OF h1 h2 h3 h4 h5]
    by (auto simp: long_two_def init_state_def or_1_def trunc_def)
qed

text \<open>
  C6 as stated fails on the fill size: with \<open>volume_scale = 3\<close>, a position of 2 and a
  period volume of 1, the sell passes the fill test and sells one unit (position 2 to 1),
  whereas the scaled volume 3, floored and capped by the position, would sell both.
\<close>

theorem sell_fill_scaled_volume_counterexample:
  "simulate_fill scaled_config ''sell'' (Some 100) touch_row
   \<and> map_sum id position (sell_leg scaled_config (long_two scaled_config) touch_row (Some 100)) = Inr 1
   \<and> position (long_two scaled_config)
       - min (max \<lfloor>1 * volume_scale scaled_config\<rfloor> 1) (position (long_two scaled_config)) = 0"
  by (simp add: example_defs backtester_defs Let_def)

subsection \<open>Buy fills\<close>

lemma buy_leg_total: "\<exists>st'. buy_leg cfg st row bid = Inr st'"
proof (cases "row_get row ''fill_volume'' (Some 1)")
  case None
  then show ?thesis
    by (cases "row_get row ''fill_price'' None"; cases "cash st")
       (simp_all add: buy_leg_def Let_def fge_def)
next
  case (Some fv)
  then show ?thesis by (simp add: buy_leg_def Let_def py_int_def)
qed

text \<open>
  Claim C7, as the code has it. The buy leg never raises. Whenever a buy fill executes
  (the leg returns a changed state), there was headroom below the position limit and the
  fill test passed; the fill size is the minimum of the headroom and the period's own
  volume, not scaled by \<open>volume_scale\<close>, truncated to an integer and replaced by 1 when
  that is 0 (for a non-negative volume: rounded down and floored at 1); cash decreases by
  exactly fill size times trade price times \<open>1 - (fee_bps + friction_bps) / 10000\<close>, the
  cost basis increases by the same amount, and the position increases by the fill size.
\<close>

theorem buy_fill_accounting:
  assumes "buy_leg cfg st row bid = Inr st'"
    and "st' \<noteq> st"
    and "cash st = Some c"
    and "cost_basis st = Some cb"
  shows "\<exists>fp fv. row_get row ''fill_price'' None = Some fp
          \<and> row_get row ''fill_volume'' (Some 1) = Some fv
          \<and> position st < position_limit cfg
          \<and> simulate_fill cfg ''buy'' bid row
          \<and> position st' = position st + min (or_1 (trunc fv)) (position_limit cfg - position st)
          \<and> cash st' = Some (c - fp * fee_mult cfg
                             * of_int (min (or_1 (trunc fv)) (position_limit cfg - position st)))
          \<and> cost_basis st' = Some (cb + fp * fee_mult cfg
                             * of_int (min (or_1 (trunc fv)) (position_limit cfg - position st)))
          \<and> (0 \<le> fv \<longrightarrow> or_1 (trunc fv) = max \<lfloor>fv\<rfloor> 1)"
proof -
  have fill: "position st < position_limit cfg" "simulate_fill cfg ''buy'' bid row"
    using assms(1,2) by (auto simp: buy_leg_def Let_def split: if_splits)
  then obtain fp where fp: "row_get row ''fill_price'' None = Some fp"
    by (auto simp: simulate_fill_def Let_def isnan_def split: if_splits)
  have guard: "fge (cash st)
      (fmul (fmul (Some fp) (Some (fee_mult cfg))) (row_get row ''fill_volume'' (Some 1)))"
    using assms(1,2) fill fp by (auto simp: buy_leg_def Let_def split: if_splits)
  then obtain fv where fv: "row_get row ''fill_volume'' (Some 1) = Some fv"
    using assms(3) by (cases "row_get row ''fill_volume'' (Some 1)") (simp_all add: fge_def)
  show ?thesis
    using assms fill fp fv guard
    by (auto simp: buy_leg_def Let_def py_int_def of_py_int_def or_1_trunc_nonneg)
qed

theorem buy_fill_accounting_witness:
  "buy_leg default_config (init_state default_config) touch_row (Some 98)
     = Inr ((init_state default_config)
              \<lparr> cash := Some (100000 - 393 / 4), position := 1, cost_basis := Some (393 / 4),
                trade_pnls := [Some 0] \<rparr>)
   \<and> (init_state default_config)
              \<lparr> cash := Some (100000 - 393 / 4), position := 1, cost_basis := Some (393 / 4),
                trade_pnls := [Some 0] \<rparr> \<noteq> init_state default_config
   \<and> cash (init_state default_config) = Some 100000
   \<and> cost_basis (init_state default_config) = Some 0
   \<and> row_get touch_row ''fill_price'' None = Some 100
   \<and> row_get touch_row ''fill_volume'' (Some 1) = Some 1
   \<and> min (or_1 (trunc 1)) (position_limit default_config - position (init_state default_config)) = 1
   \<and> simulate_fill default_config ''buy'' (Some 98) touch_row"
proof -
  let ?st' = "(init_state default_config)
              \<lparr> cash := Some (100000 - 393 / 4), position := 1, cost_basis := Some (393 / 4),
                trade_pnls := [Some 0] \<rparr>"
  have h1: "buy_leg default_config (init_state default_config) touch_row (Some 98) = Inr ?st'"
    by (simp add: example_defs backtester_defs Let_def)
  have h2: "?st' \<noteq> init_state default_config"
    by (simp add: init_state_def bt_state.defs)
  have h3: "cash (init_state default_config) = Some 100000"
    by (simp add: init_state_def default_config_def)
  have h4: "cost_basis (init_state default_config) = Some 0"
    by (simp add: init_state_def)
  have h5: "row_get touch_row ''fill_price'' None = Some 100"
    "row_get touch_row ''fill_volume'' (Some 1) = Some 1"
    by (simp_all add: example_defs backtester_defs)
  have h6: "min (or_1 (trunc 1)) (position_limit default_config - position (init_state default_config)) = 1"
    by (simp add: or_1_def trunc_def default_config_def init_state_def)
  show ?thesis
    using h1 h2 h3 h4 h5 h6 buy_fill_accounting [OF h1 h2 h3 h4]
    by auto
qed

text \<open>
  C7 as stated fails on the fill size: with \<open>volume_scale = 3\<close>, no position, a limit of
  10 and a period volume of 1, the buy executes for one unit, whereas the scaled volume 3,
  floored and capped by the headroom, would buy three.
\<close>

theorem buy_fill_scaled_volume_counterexample:
  "simulate_fill scaled_config ''buy'' (Some 98) touch_row
   \<and> map_sum id position (buy_leg scaled_config (init_state scaled_config) touch_row (Some 98)) = Inr 1
   \<and> position (init_state scaled_config)
       + min (max \<lfloor>1 * volume_scale scaled_config\<rfloor> 1)
             (position_limit scaled_config - position (init_state scaled_config)) = 3"
  by (simp add: example_defs backtester_defs Let_def)

subsection \<open>Position limit\<close>

lemma buy_leg_pos_ok:
  assumes "pos_ok cfg st" and "vol_ok row"
  shows "\<exists>st'. buy_leg cfg st row bid = Inr st' \<and> pos_ok cfg st'"
proof -
  obtain v where v: "row_get row ''fill_volume'' (Some 1) = Some v" "0 \<le> v"
    using assms(2) by (auto simp: vol_ok_def split: option.splits)
  have "1 \<le> or_1 (trunc v)" using v(2) by (rule or_1_trunc_ge1)
  then show ?thesis using assms(1) v(1)
    by (auto simp: buy_leg_def Let_def py_int_def pos_ok_def)
qed

lemma sell_leg_pos_ok:
  assumes "pos_ok cfg st" and "vol_ok row"
  shows "\<exists>st'. sell_leg cfg st row ask = Inr st' \<and> pos_ok cfg st'"
proof -
  obtain v where v: "row_get row ''fill_volume'' (Some 1) = Some v" "0 \<le> v"
    using assms(2) by (auto simp: vol_ok_def split: option.splits)
  have "1 \<le> or_1 (trunc v)" using v(2) by (rule or_1_trunc_ge1)
  then show ?thesis using assms(1) v(1)
    by (auto simp: sell_leg_def Let_def py_int_def pos_ok_def)
qed

lemma position_accrue: "position (accrue st row) = position st"
  by (simp add: accrue_def Let_def)

lemma position_mark: "position (mark cfg ffp st row) = position st"
  by (simp add: mark_def Let_def)

lemma position_skip: "position (skip_period cfg ffp st row) = position st"
  by (simp add: skip_period_def Let_def)

lemma period_pos_ok:
  assumes "pos_ok cfg st" and "vol_ok row"
  shows "\<exists>st'. period cfg ffp st row = Inr st' \<and> pos_ok cfg st'"
proof (cases "synthetic_order_book cfg row")
  case (Pair bid ask)
  show ?thesis
  proof (cases "isnan bid \<or> isnan ask")
    case True
    then show ?thesis using Pair assms(1)
      by (simp add: period_def pos_ok_def position_skip)
  next
    case False
    obtain st1 where b: "buy_leg cfg st row bid = Inr st1" "pos_ok cfg st1"
      using buy_leg_pos_ok[OF assms] by blast
    obtain st2 where s: "sell_leg cfg st1 row ask = Inr st2" "pos_ok cfg st2"
      using sell_leg_pos_ok[OF b(2) assms(2)] by blast
    show ?thesis using Pair False b s
      by (simp add: period_def pos_ok_def position_mark position_accrue)
  qed
qed

lemma run_loop_pos_ok:
  assumes "pos_ok cfg st" and "\<forall>row \<in> set ts. vol_ok row"
  shows "\<exists>st'. run_loop cfg ffp st ts = Inr st' \<and> pos_ok cfg st'"
  using assms
proof (induction ts arbitrary: st)
  case Nil
  then show ?case by simp
next
  case (Cons row ts)
  obtain st1 where p: "period cfg ffp st row = Inr st1" "pos_ok cfg st1"
    using period_pos_ok[of cfg st row ffp] Cons.prems by auto
  show ?case using Cons.IH[OF p(2)] Cons.prems(2) p(1) by simp
qed

text \<open>
  Claim C9. For an observation sequence whose period volumes are non-negative numbers and
  a configuration with \<open>position_limit \<ge> 0\<close> and \<open>volume_scale \<ge> 0\<close>, the loop reaches
  every period without raising, and after each of the first \<open>n\<close> periods the position
  lies between 0 and the position limit.
\<close>

theorem position_within_limit:
  assumes "\<forall>row \<in> set ts. \<exists>v. row_get row ''fill_volume'' (Some 1) = Some v \<and> 0 \<le> v"
    and "0 \<le> position_limit cfg"
    and "0 \<le> volume_scale cfg"
    and "n \<le> length ts"
  shows "\<exists>st. run_loop cfg ffp (init_state cfg) (take n ts) = Inr st
           \<and> 0 \<le> position st \<and> position st \<le> position_limit cfg"
proof -
  have "pos_ok cfg (init_state cfg)" using assms(2) by (simp add: pos_ok_def init_state_def)
  moreover have "\<forall>row \<in> set (take n ts). vol_ok row"
    using assms(1) by (auto simp: vol_ok_def dest!: in_set_takeD)
  ultimately show ?thesis using run_loop_pos_ok[of cfg "init_state cfg" "take n ts" ffp]
    by (simp add: pos_ok_def)
qed

theorem position_within_limit_witness:
  "list_all (\<lambda>row. \<exists>v. row_get row ''fill_volume'' (Some 1) = Some v \<and> 0 \<le> v)
      (iloc_all (ingest gap_frame))
   \<and> 0 \<le> position_limit default_config
   \<and> 0 \<le> volume_scale default_config
   \<and> (1::nat) \<le> length (iloc_all (ingest gap_frame))
   \<and> (\<exists>st. run_loop default_config 100 (init_state default_config)
               (take 1 (iloc_all (ingest gap_frame))) = Inr st
          \<and> 0 \<le> position st \<and> position st \<le> position_limit default_config
          \<and> position st = 1)"
proof -
  have h1: "\<forall>row \<in> set (iloc_all (ingest gap_frame)).
       \<exists>v. row_get row ''fill_volume'' (Some 1) = Some v \<and> 0 \<le> v"
    by (simp add: example_defs backtester_defs Let_def)
  have h2: "0 \<le> position_limit default_config"
    by (simp add: default_config_def)
  have h3: "0 \<le> volume_scale default_config"
    by (simp add: default_config_def)
  have h4: "(1::nat) \<le> length (iloc_all (ingest gap_frame))"
    by (simp add: example_defs backtester_defs Let_def)
  have run1: "map_sum id position (run_loop default_config 100 (init_state default_config)
               (take 1 (iloc_all (ingest gap_frame)))) = Inr 1"
    by (simp add: example_defs backtester_defs book_cases Let_def)
  show ?thesis
    using h1 h2 h3 h4 run1 position_within_limit [OF h1 h2 h3 h4, of 100]
    by (auto simp: list_all_iff)
qed

section \<open>Portfolio Monte Carlo: properties\<close>

subsection \<open>Determinism under a fixed seed\<close>

lemma draw_shocks_order:
  "draw_shocks g P T K =
     (map (variates g) [consumed g ..< consumed g + P * T],
      map (variates g) [consumed g + P * T ..< consumed g + P * T + P * T * K],
      map (variates g) [consumed g + P * T + P * T * K ..< consumed g + P * T + P * T * K + P * T * K])"
  by (simp add: draw_shocks_def standard_normal_def)

lemma run_returns:
  assumes "0 < num_paths cfg" and "0 < num_days cfg"
  shows "\<exists>r. run_portfolio_monte_carlo seeded entropy cfg = Inr r"
  using assms by (simp add: run_portfolio_monte_carlo_def Let_def)

text \<open>
  Claim C1. With a fixed seed \<open>s\<close>, two invocations with the same configuration return
  the same result (terminal values included) whatever entropy the operating system would
  have supplied to an unseeded generator; and the engine's three draws are consecutive
  segments of the one variate sequence of the generator seeded with \<open>s\<close>: first the
  \<open>P * T\<close> market shocks, then the \<open>P * T * K\<close> idiosyncratic shocks, then the
  \<open>P * T * K\<close> volume shocks.
\<close>

theorem seeded_run_deterministic:
  assumes "seed cfg = Some s"
  shows "run_portfolio_monte_carlo seeded e1 cfg = run_portfolio_monte_carlo seeded e2 cfg
       \<and> draw_shocks (default_rng seeded e1 (seed cfg)) P T K =
           (map (seeded s) [0 ..< P * T],
            map (seeded s) [P * T ..< P * T + P * T * K],
            map (seeded s) [P * T + P * T * K ..< P * T + P * T * K + P * T * K])"
proof -
  have "default_rng seeded e1 (seed cfg) = default_rng seeded e2 (seed cfg)"
    using assms by (simp add: default_rng_def)
  hence "run_portfolio_monte_carlo seeded e1 cfg = run_portfolio_monte_carlo seeded e2 cfg"
    by (simp only: run_portfolio_monte_carlo_def)
  moreover have "variates (default_rng seeded e1 (seed cfg)) = seeded s"
    "consumed (default_rng seeded e1 (seed cfg)) = 0"
    using assms by (simp_all add: default_rng_def)
  ultimately show ?thesis by (simp add: draw_shocks_order)
qed

theorem seeded_run_deterministic_witness:
  "seed zero_vol_config = Some 42
   \<and> run_portfolio_monte_carlo const_gen zeros zero_vol_config
       = run_portfolio_monte_carlo const_gen ones zero_vol_config
   \<and> draw_shocks (default_rng const_gen zeros (seed zero_vol_config)) 2 2 1
       = ([0, 0, 0, 0], [0, 0, 0, 0], [0, 0, 0, 0])"
proof -
  have h: "seed zero_vol_config = Some 42"
    by (simp add: zero_vol_config_def)
  have u: "[0..<4] = [0, 1, 2, 3]" "[4..<8] = [4, 5, 6, 7]" "[8..<12] = [8, 9, 10, 11]"
    by (simp_all add: upt_rec)
  show ?thesis
    using h seeded_run_deterministic [OF h, of const_gen zeros ones 2 2 1]
    by (simp add: u const_gen_def)
qed

subsection \<open>Ruin attributed to staleness\<close>

lemma sum_flags_conj_le:
  "sum_list (map (\<lambda>b. if b then (1::real) else 0) (map (\<lambda>(r, h). r \<and> h) (zip rs hs)))
     \<le> sum_list (map (\<lambda>b. if b then 1 else 0) rs)"
proof (induction rs arbitrary: hs)
  case Nil show ?case by simp
next
  case (Cons r rs)
  have nn: "0 \<le> sum_list (map (\<lambda>b. if b then (1::real) else 0) rs)"
    by (rule sum_list_nonneg) auto
  show ?case
  proof (cases hs)
    case Nil then show ?thesis using nn by simp
  next
    case (Cons h hs')
    then show ?thesis using Cons.IH[of hs'] by simp
  qed
qed

lemma mean_bool_conj_le:
  assumes "length hs = length rs"
  shows "mean_bool (map (\<lambda>(r, h). r \<and> h) (zip rs hs)) \<le> mean_bool rs"
proof -
  have "length (map (\<lambda>(r, h). r \<and> h) (zip rs hs)) = length rs" using assms by simp
  thus ?thesis
    unfolding mean_bool_def np_mean_def
    by (simp only: length_map) (intro divide_right_mono sum_flags_conj_le, simp)
qed

text \<open>
  Claim C2. Whenever the engine returns a result, the reported
  \<open>probability_of_ruin_staleness\<close> is at most the reported \<open>probability_of_ruin\<close>: the
  first is the mean, over the same paths, of "ruined and had a stale asset", the second
  the mean of "ruined".
\<close>

theorem staleness_ruin_at_most_ruin:
  assumes "run_portfolio_monte_carlo seeded entropy cfg = Inr r"
  shows "probability_of_ruin_staleness r \<le> probability_of_ruin r"
proof -
  define P where "P = nat (num_paths cfg)"
  define T where "T = nat (num_days cfg)"
  define K where "K = length (map fst (effective_params cfg))"
  define shocks where "shocks = draw_shocks (default_rng seeded entropy (seed cfg)) P T K"
  define rs where "rs = map (\<lambda>v. v < initial_capital cfg * ruin_pct cfg)
     (map (\<lambda>p. sum_list (map (value_per_sku cfg T shocks p) [0..<K])) [0..<P])"
  define hs where "hs = map (had_stale cfg T (snd (snd shocks))) [0..<P]"
  have len: "length hs = length rs" by (simp add: hs_def rs_def)
  have "probability_of_ruin r = mean_bool rs
      \<and> probability_of_ruin_staleness r = mean_bool (map (\<lambda>(r, h). r \<and> h) (zip rs hs))"
    using assms
    unfolding run_portfolio_monte_carlo_def Let_def
      P_def[symmetric] T_def[symmetric] K_def[symmetric] shocks_def[symmetric]
      rs_def[symmetric] hs_def[symmetric]
    by (auto split: if_splits)
  thus ?thesis using mean_bool_conj_le[OF len] by simp
qed

theorem staleness_ruin_at_most_ruin_witness:
  "\<exists>r. run_portfolio_monte_carlo const_gen zeros zero_vol_config = Inr r
       \<and> probability_of_ruin_staleness r \<le> probability_of_ruin r"
proof -
  have "0 < num_paths zero_vol_config" "0 < num_days zero_vol_config"
    by (simp_all add: zero_vol_config_def)
  then obtain r where r: "run_portfolio_monte_carlo const_gen zeros zero_vol_config = Inr r"
    using run_returns by blast
  show ?thesis
    using r staleness_ruin_at_most_ruin [OF r] by blast
qed

subsection \<open>Staleness and the haircut\<close>


lemma all_true_conv: "(\<forall>b \<in> set bs. b) = (False \<notin> set bs)"
  by (induction bs) auto









subsection \<open>The volatility floor\<close>

lemma run_cong_params:
  assumes fst_eq: "map fst ps' = map fst (sku_params cfg)"
    and mu_eq: "mu_arr ps' = mu_arr (sku_params cfg)"
    and sigma_eq: "sigma_arr ps' = sigma_arr (sku_params cfg)"
    and liq_eq: "liq_arr ps' = liq_arr (sku_params cfg)"
  shows "run_portfolio_monte_carlo seeded entropy (cfg \<lparr> sku_params := ps' \<rparr>)
       = run_portfolio_monte_carlo seeded entropy cfg"
proof -
  let ?cfg' = "cfg \<lparr> sku_params := ps' \<rparr>"
  have nil: "(ps' = []) = (sku_params cfg = [])"
    using fst_eq by (metis map_is_Nil_conv)
  have e1: "map fst (effective_params ?cfg') = map fst (effective_params cfg)"
    using nil fst_eq by (simp add: effective_params_def)
  have e2: "mu_arr (effective_params ?cfg') = mu_arr (effective_params cfg)"
    using nil mu_eq by (simp add: effective_params_def)
  have e3: "sigma_arr (effective_params ?cfg') = sigma_arr (effective_params cfg)"
    using nil sigma_eq by (simp add: effective_params_def)
  have e4: "liq_arr (effective_params ?cfg') = liq_arr (effective_params cfg)"
    using nil liq_eq by (simp add: effective_params_def)
  have e5: "length (effective_params ?cfg') = length (effective_params cfg)"
    using e1 by (metis length_map)
  have s0: "s0_arr ?cfg' = s0_arr cfg" by (simp add: s0_arr_def fun_eq_iff)
  have hc: "haircut ?cfg' = haircut cfg" by (simp add: haircut_def is_stale_def fun_eq_iff)
  have zs: "Z_series ?cfg' = Z_series cfg" by (simp add: Z_series_def beta_of_def fun_eq_iff)
  have v: "value_per_sku ?cfg' = value_per_sku cfg"
    by (intro ext) (simp add: value_per_sku_def Let_def e1 e2 e3 e4 e5 s0 hc zs)
  have h: "had_stale ?cfg' = had_stale cfg"
    by (intro ext) (simp add: had_stale_def e4 e5 is_stale_def)
  show ?thesis
    by (simp add: run_portfolio_monte_carlo_def Let_def e1 e5 v h)
qed

text \<open>
  Claim C10. The volatility the engine uses for asset \<open>k\<close> is \<open>max(sigma, 1e-6)\<close>: that
  value, and no other, enters the geometric-Brownian-motion terminal price of every path
  (in the drift \<open>(mu - sigma^2 / 2) dt\<close> and in the diffusion \<open>sigma sqrt(dt) Z\<close>), and the
  reported terminal values are the sums of these per-asset values. Consequently replacing
  each volatility by that maximum leaves the result unchanged, and a configuration in
  which asset \<open>i\<close> has \<open>sigma \<le> 1e-6\<close> (zero and negative values included) gives exactly
  the result of the same configuration with that asset's volatility set to \<open>1e-6\<close>.
\<close>

theorem sigma_floored_before_paths:
  "(k < length (effective_params cfg) \<longrightarrow>
      value_per_sku cfg T (Z_market, Z_idio, Z_vol) p k =
        (map (\<lambda>s. initial_capital cfg / real (length (effective_params cfg)) / s)
             (s0_arr cfg (map fst (effective_params cfg))) ! k)
        * end_price (s0_arr cfg (map fst (effective_params cfg)) ! k)
            (mu (snd (effective_params cfg ! k)))
            (max (sigma (snd (effective_params cfg ! k))) (1 / 1000000))
            (Z_series cfg T (length (effective_params cfg)) Z_market Z_idio p k)
        * haircut cfg (vol_series T (liq_arr (effective_params cfg)) Z_vol p k))
   \<and> (run_portfolio_monte_carlo seeded entropy cfg = Inr r \<longrightarrow>
        final_values r =
          map (\<lambda>p. sum_list (map (value_per_sku cfg (nat (num_days cfg))
                 (draw_shocks (default_rng seeded entropy (seed cfg)) (nat (num_paths cfg))
                    (nat (num_days cfg)) (length (effective_params cfg))) p)
               [0..<length (effective_params cfg)]))
            [0..<nat (num_paths cfg)])
   \<and> end_price s0 m sg zs = s0 * exp (sum_list (map (\<lambda>z. (m - (1 / 2) * sg\<^sup>2) * (1 / 252)
                                                    + sg * sqrt (1 / 252) * z) zs))
   \<and> run_portfolio_monte_carlo seeded entropy
      (cfg \<lparr> sku_params := map (\<lambda>s. (fst s, (snd s) \<lparr> sigma := max (sigma (snd s)) (1 / 1000000) \<rparr>))
                               (sku_params cfg) \<rparr>)
     = run_portfolio_monte_carlo seeded entropy cfg
   \<and> (i < length (sku_params cfg) \<and> sigma (snd (sku_params cfg ! i)) \<le> 1 / 1000000 \<longrightarrow>
        run_portfolio_monte_carlo seeded entropy
          (cfg \<lparr> sku_params := (sku_params cfg)
                   [i := (fst (sku_params cfg ! i), (snd (sku_params cfg ! i)) \<lparr> sigma := 1 / 1000000 \<rparr>)] \<rparr>)
        = run_portfolio_monte_carlo seeded entropy cfg)"
proof (intro conjI impI)
  assume k: "k < length (effective_params cfg)"
  have s: "sigma_arr (effective_params cfg) ! k
      = max (sigma (snd (effective_params cfg ! k))) (1 / 1000000)"
    using k by (simp add: sigma_arr_def)
  have m: "mu_arr (effective_params cfg) ! k = mu (snd (effective_params cfg ! k))"
    using k by (simp add: mu_arr_def)
  show "value_per_sku cfg T (Z_market, Z_idio, Z_vol) p k =
        (map (\<lambda>s. initial_capital cfg / real (length (effective_params cfg)) / s)
             (s0_arr cfg (map fst (effective_params cfg))) ! k)
        * end_price (s0_arr cfg (map fst (effective_params cfg)) ! k)
            (mu (snd (effective_params cfg ! k)))
            (max (sigma (snd (effective_params cfg ! k))) (1 / 1000000))
            (Z_series cfg T (length (effective_params cfg)) Z_market Z_idio p k)
        * haircut cfg (vol_series T (liq_arr (effective_params cfg)) Z_vol p k)"
    by (simp only: value_per_sku_def Let_def prod.case s m)
next
  assume "run_portfolio_monte_carlo seeded entropy cfg = Inr r"
  thus "final_values r =
          map (\<lambda>p. sum_list (map (value_per_sku cfg (nat (num_days cfg))
                 (draw_shocks (default_rng seeded entropy (seed cfg)) (nat (num_paths cfg))
                    (nat (num_days cfg)) (length (effective_params cfg))) p)
               [0..<length (effective_params cfg)]))
            [0..<nat (num_paths cfg)]"
    by (auto simp: run_portfolio_monte_carlo_def Let_def split: if_splits)
next
  show "end_price s0 m sg zs = s0 * exp (sum_list (map (\<lambda>z. (m - (1 / 2) * sg\<^sup>2) * (1 / 252)
                                                    + sg * sqrt (1 / 252) * z) zs))"
  proof -
    have "log_return m sg = (\<lambda>z. (m - (1 / 2) * sg\<^sup>2) * (1 / 252) + sg * sqrt (1 / 252) * z)"
      by (simp add: fun_eq_iff log_return_def dt_def)
    thus ?thesis by (simp only: end_price_def)
  qed
next
  show "run_portfolio_monte_carlo seeded entropy
      (cfg \<lparr> sku_params := map (\<lambda>s. (fst s, (snd s) \<lparr> sigma := max (sigma (snd s)) (1 / 1000000) \<rparr>))
                               (sku_params cfg) \<rparr>)
     = run_portfolio_monte_carlo seeded entropy cfg"
    by (rule run_cong_params) (simp_all add: mu_arr_def sigma_arr_def liq_arr_def comp_def)
next
  assume a: "i < length (sku_params cfg) \<and> sigma (snd (sku_params cfg ! i)) \<le> 1 / 1000000"
  let ?ps = "sku_params cfg"
  let ?x = "(fst (?ps ! i), (snd (?ps ! i)) \<lparr> sigma := 1 / 1000000 \<rparr>)"
  have upd: "map f (?ps[i := ?x]) = map f ?ps" if "f ?x = f (?ps ! i)" for f :: "string \<times> sku_param \<Rightarrow> 'b"
    using that a by (simp add: map_update list_update_same_conv)
  show "run_portfolio_monte_carlo seeded entropy (cfg \<lparr> sku_params := ?ps[i := ?x] \<rparr>)
        = run_portfolio_monte_carlo seeded entropy cfg"
  proof (rule run_cong_params)
    show "map fst (?ps[i := ?x]) = map fst ?ps" by (rule upd) simp
    show "mu_arr (?ps[i := ?x]) = mu_arr ?ps" unfolding mu_arr_def by (rule upd) simp
    show "sigma_arr (?ps[i := ?x]) = sigma_arr ?ps" unfolding sigma_arr_def
      using a by (intro upd) (simp add: max_def)
    show "liq_arr (?ps[i := ?x]) = liq_arr ?ps" unfolding liq_arr_def by (rule upd) simp
  qed
qed

theorem sigma_floored_before_paths_witness:
  "0 < length (effective_params zero_vol_config)
   \<and> sigma (snd (effective_params zero_vol_config ! 0)) = 0
   \<and> value_per_sku zero_vol_config 2 ([0, 0, 0, 0], [0, 0, 0, 0], [0, 0, 0, 0]) 1 0
        = 1000 * end_price 100 (5 / 100) (1 / 1000000) [0, 0] * 1
   \<and> end_price 100 (5 / 100) (1 / 1000000) [0, 0]
        = 100 * exp (sum_list (map (\<lambda>z. (5 / 100 - (1 / 2) * (1 / 1000000)\<^sup>2) * (1 / 252)
                                          + 1 / 1000000 * sqrt (1 / 252) * z) [0, 0]))
   \<and> 0 < length (sku_params zero_vol_config)
   \<and> sigma (snd (sku_params zero_vol_config ! 0)) \<le> 1 / 1000000
   \<and> run_portfolio_monte_carlo const_gen zeros
        (zero_vol_config \<lparr> sku_params :=
           [(''A'', \<lparr> mu = 5 / 100, sigma = 1 / 1000000, liquidity_score = 1 / 2 \<rparr>)] \<rparr>)
      = run_portfolio_monte_carlo const_gen zeros zero_vol_config
   \<and> (\<exists>r. run_portfolio_monte_carlo const_gen zeros zero_vol_config = Inr r
          \<and> length (final_values r) = 2)"
proof -
  have h0: "0 < length (effective_params zero_vol_config)"
    "sigma (snd (effective_params zero_vol_config ! 0)) = 0"
    by (simp_all add: zero_vol_config_def effective_params_def)
  have h1: "0 < length (sku_params zero_vol_config)"
    by (simp add: zero_vol_config_def)
  have h2: "sigma (snd (sku_params zero_vol_config ! 0)) \<le> 1 / 1000000"
    by (simp add: zero_vol_config_def)
  have u: "(sku_params zero_vol_config)
      [0 := (fst (sku_params zero_vol_config ! 0),
             (snd (sku_params zero_vol_config ! 0)) \<lparr> sigma := 1 / 1000000 \<rparr>)]
      = [(''A'', \<lparr> mu = 5 / 100, sigma = 1 / 1000000, liquidity_score = 1 / 2 \<rparr>)]"
    by (simp add: zero_vol_config_def)
  have "0 < num_paths zero_vol_config" "0 < num_days zero_vol_config"
    by (simp_all add: zero_vol_config_def)
  then obtain r where r: "run_portfolio_monte_carlo const_gen zeros zero_vol_config = Inr r"
    using run_returns by blast
  note t = sigma_floored_before_paths [of 0 zero_vol_config 2 "[0, 0, 0, 0]" "[0, 0, 0, 0]"
      "[0, 0, 0, 0]" 1 const_gen zeros r 100 "5 / 100" "1 / 1000000" "[0, 0]" 0]
  have v: "value_per_sku zero_vol_config 2 ([0, 0, 0, 0], [0, 0, 0, 0], [0, 0, 0, 0]) 1 0
        = 1000 * end_price 100 (5 / 100) (1 / 1000000) [0, 0] * 1"
    using t [THEN conjunct1] h0
    by (simp add: zero_vol_config_def effective_params_def s0_arr_def Z_series_def Z_at_def
        at2_def at3_def beta_of_def haircut_def is_stale_def vol_series_def volume_series_def
        below_def days_stale_at_end_def liq_arr_def upt_rec)
  have f: "length (final_values r) = 2"
    using t [THEN conjunct2, THEN conjunct1] r by (simp add: zero_vol_config_def)
  have e: "end_price 100 (5 / 100) (1 / 1000000) [0, 0]
        = 100 * exp (sum_list (map (\<lambda>z. (5 / 100 - (1 / 2) * (1 / 1000000)\<^sup>2) * (1 / 252)
                                          + 1 / 1000000 * sqrt (1 / 252) * z) [0, 0]))"
    using t [THEN conjunct2, THEN conjunct2, THEN conjunct1] .
  have i: "run_portfolio_monte_carlo const_gen zeros
        (zero_vol_config \<lparr> sku_params :=
           [(''A'', \<lparr> mu = 5 / 100, sigma = 1 / 1000000, liquidity_score = 1 / 2 \<rparr>)] \<rparr>)
      = run_portfolio_monte_carlo const_gen zeros zero_vol_config"
    using t [THEN conjunct2, THEN conjunct2, THEN conjunct2, THEN conjunct2] h1 h2
    by (simp only: u)
  show ?thesis
    using h0 h1 h2 v e i r f by blast
qed

section \<open>Price cleaning: properties\<close>

lemma finite_at_least_ge: "x \<in> set (finite_at_least m prices) \<Longrightarrow> m \<le> x"
  by (auto simp: finite_at_least_def List.map_filter_def split: option.splits if_splits)

lemma finite_at_least_id: "\<forall>x \<in> set ys. m \<le> x \<Longrightarrow> finite_at_least m (map Some ys) = ys"
  by (induction ys) (simp_all add: finite_at_least_def List.map_filter_def)

lemma clean_sold_prices_filter:
  "\<exists>P. clean_sold_prices prices m k f = filter P (finite_at_least m prices)"
proof (cases "length (finite_at_least m prices) \<le> 2")
  case True
  hence "clean_sold_prices prices m k f = filter (\<lambda>x. True) (finite_at_least m prices)"
    by (simp add: clean_sold_prices_def Let_def)
  thus ?thesis by blast
next
  case False
  thus ?thesis by (simp add: clean_sold_prices_def Let_def) blast
qed

lemma clean_sold_prices_ge: "x \<in> set (clean_sold_prices prices m k f) \<Longrightarrow> m \<le> x"
  using clean_sold_prices_filter[of prices m k f] finite_at_least_ge[of x m prices] by auto

text \<open>
  Claim C8, as the code has it. The cleaning step keeps the finite prices at or above the
  floor and, when more than two remain, those within
  \<open>[max(floor, 1st percentile, Q1 - 1.5 IQR), Q3 + 1.5 IQR]\<close>. A second application
  removes no price for being below the floor, and returns the once-cleaned prices filtered
  by those bounds recomputed on the cleaned prices themselves: it never brings a price
  back, it can remove further ones, and it removes none when at most two prices survived
  the first application.
\<close>

theorem second_cleaning_only_removes:
  "(let F = (\<lambda>p. if length p \<le> 2 then p
                 else (let q1 = np_percentile p 25;
                           q3 = np_percentile p 75;
                           iqr = (if q3 - q1 \<le> 0
                                  then (if np_std p = 0 then 1 / 1000000 else np_std p)
                                  else q3 - q1)
                       in filter (\<lambda>x. max (max 5 (np_percentile p 1)) (q1 - 3 / 2 * iqr) \<le> x
                                       \<and> x \<le> q3 + 3 / 2 * iqr) p))
    in clean prices = F (finite_at_least 5 prices)
       \<and> finite_at_least 5 (map Some (clean prices)) = clean prices
       \<and> clean (map Some (clean prices)) = F (clean prices))
   \<and> (\<forall>x \<in> set (clean prices). 5 \<le> x)
   \<and> set (clean (map Some (clean prices))) \<subseteq> set (clean prices)
   \<and> (length (clean prices) \<le> 2 \<longrightarrow> clean (map Some (clean prices)) = clean prices)"
proof -
  define F :: "real list \<Rightarrow> real list" where
    "F = (\<lambda>p. if length p \<le> 2 then p
                 else (let q1 = np_percentile p 25;
                           q3 = np_percentile p 75;
                           iqr = (if q3 - q1 \<le> 0
                                  then (if np_std p = 0 then 1 / 1000000 else np_std p)
                                  else q3 - q1)
                       in filter (\<lambda>x. max (max 5 (np_percentile p 1)) (q1 - 3 / 2 * iqr) \<le> x
                                       \<and> x \<le> q3 + 3 / 2 * iqr) p))"
  have cF: "clean xs = F (finite_at_least 5 xs)" for xs
    by (simp add: F_def clean_def clean_sold_prices_def Let_def)
  have ge: "\<forall>x \<in> set (clean prices). 5 \<le> x"
    using clean_sold_prices_ge by (auto simp: clean_def)
  hence fid: "finite_at_least 5 (map Some (clean prices)) = clean prices"
    by (rule finite_at_least_id)
  have two: "clean (map Some (clean prices)) = F (clean prices)"
    by (simp only: cF[of "map Some (clean prices)"] fid)
  have sub: "set (F p) \<subseteq> set p" for p
    by (auto simp: F_def Let_def)
  have small: "F p = p" if "length p \<le> 2" for p
    using that by (simp add: F_def)
  have "clean prices = F (finite_at_least 5 prices)
       \<and> finite_at_least 5 (map Some (clean prices)) = clean prices
       \<and> clean (map Some (clean prices)) = F (clean prices)"
    using cF[of prices] fid two by blast
  moreover have "set (clean (map Some (clean prices))) \<subseteq> set (clean prices)"
    by (simp only: two sub)
  moreover have "length (clean prices) \<le> 2 \<longrightarrow> clean (map Some (clean prices)) = clean prices"
    by (simp only: two) (simp add: small)
  ultimately show ?thesis
    using ge unfolding Let_def F_def by blast
qed

theorem second_cleaning_only_removes_witness:
  "clean [Some 10, None, Some 20, Some 3, Some 30, Some 40] = [20, 30, 40]
   \<and> np_percentile [20, 30, 40] 1 = 101 / 5
   \<and> np_percentile [20, 30, 40] 25 = 25
   \<and> np_percentile [20, 30, 40] 75 = 35
   \<and> clean (map Some (clean [Some 10, None, Some 20, Some 3, Some 30, Some 40]))
        = filter (\<lambda>x. 101 / 5 \<le> x \<and> x \<le> 50) [20, 30, 40]
   \<and> set (clean (map Some (clean [Some 10, None, Some 20, Some 3, Some 30, Some 40])))
        \<subseteq> {20, 30, 40}"
proof -
  have c: "clean [Some 10, None, Some 20, Some 3, Some 30, Some 40] = [20, 30, 40]"
    by (simp add: clean_def clean_sold_prices_def finite_at_least_def List.map_filter_def
        np_percentile_def Let_def)
  have p: "np_percentile [20, 30, 40] 1 = 101 / 5" "np_percentile [20, 30, 40] 25 = 25"
    "np_percentile [20, 30, 40] 75 = 35"
    by (simp_all add: np_percentile_def Let_def)
  note t = second_cleaning_only_removes [of "[Some 10, None, Some 20, Some 3, Some 30, Some 40]",
      unfolded Let_def]
  have f: "clean (map Some (clean [Some 10, None, Some 20, Some 3, Some 30, Some 40]))
        = filter (\<lambda>x. 101 / 5 \<le> x \<and> x \<le> 50) [20, 30, 40]"
    using t [THEN conjunct1, THEN conjunct2, THEN conjunct2] by (simp add: c p)
  have s: "set (clean (map Some (clean [Some 10, None, Some 20, Some 3, Some 30, Some 40])))
        \<subseteq> {20, 30, 40}"
    using t [THEN conjunct2, THEN conjunct2, THEN conjunct1] by (simp add: c)
  show ?thesis
    using c p f s by blast
qed

text \<open>
  C8 as stated fails: cleaning the prices 10, 20, 30, 40 drops 10 (it lies below the 1st
  percentile 10.3); cleaning the result 20, 30, 40 again drops 20 (below the recomputed
  1st percentile 20.2).
\<close>

theorem cleaning_not_idempotent_counterexample:
  "clean [Some 10, Some 20, Some 30, Some 40] = [20, 30, 40]
   \<and> clean (map Some (clean [Some 10, Some 20, Some 30, Some 40])) = [30, 40]
   \<and> clean (map Some (clean [Some 10, Some 20, Some 30, Some 40]))
       \<noteq> clean [Some 10, Some 20, Some 30, Some 40]"
proof -
  have c1: "clean [Some 10, Some 20, Some 30, Some 40] = [20, 30, 40]"
    by (simp add: clean_def clean_sold_prices_def finite_at_least_def List.map_filter_def
        np_percentile_def Let_def)
  have c2: "clean [Some 20, Some 30, Some 40] = [30, 40]"
    by (simp add: clean_def clean_sold_prices_def finite_at_least_def List.map_filter_def
        np_percentile_def Let_def)
  show ?thesis by (simp add: c1 c2)
qed


end
